theory Spec2Isabelle
  imports Complex_Main "HOL-Library.Sublist" "HOL-Library.Code_Target_Nat"
begin

section \<open>Python values used by \<open>backend/server.py\<close>\<close>

subsection \<open>Strings\<close>

text \<open>
  A Python \<open>str\<close> is a sequence of Unicode code points, so it is modelled as a list of
  code points. \<open>u\<close> turns an ASCII literal of the source into that form.
\<close>

type_synonym str = "nat list"

definition u :: "string \<Rightarrow> str" where
  "u s = map of_char s"

text \<open>
  \<open>str.strip()\<close> without argument removes leading and trailing white space, which for
  \<open>str\<close> is the set of code points for which \<open>str.isspace\<close> holds:
  U+0009..U+000D, U+001C..U+0020, U+0085, U+00A0, U+1680, U+2000..U+200A, U+2028,
  U+2029, U+202F, U+205F and U+3000.
\<close>

definition isspace :: "nat \<Rightarrow> bool" where
  "isspace c \<longleftrightarrow>
     (9 \<le> c \<and> c \<le> 13) \<or> (28 \<le> c \<and> c \<le> 32) \<or> c = 133 \<or> c = 160 \<or> c = 5760 \<or>
     (8192 \<le> c \<and> c \<le> 8202) \<or> c = 8232 \<or> c = 8233 \<or> c = 8239 \<or> c = 8287 \<or> c = 12288"

definition strip :: "str \<Rightarrow> str" where
  "strip s = rev (dropWhile isspace (rev (dropWhile isspace s)))"

definition startswith :: "str \<Rightarrow> str \<Rightarrow> bool" where
  "startswith s p \<longleftrightarrow> take (length p) s = p"

text \<open>
  \<open>str.lower()\<close>, on the letters A..Z. The source compares the lowered tag name with
  \<open>"a"\<close> only, and U+0041 is the only code point whose lower case is U+0061.
\<close>

definition lower :: "str \<Rightarrow> str" where
  "lower s = map (\<lambda>c. if 65 \<le> c \<and> c \<le> 90 then c + 32 else c) s"

text \<open>\<open>sep.join(xs)\<close>.\<close>

fun join :: "str \<Rightarrow> str list \<Rightarrow> str" where
  "join sep [] = []"
| "join sep [x] = x"
| "join sep (x # y # ys) = x @ sep @ join sep (y # ys)"

text \<open>\<open>any(xs)\<close> on a list of strings: some string is non-empty.\<close>

definition any_str :: "str list \<Rightarrow> bool" where
  "any_str xs \<longleftrightarrow> (\<exists>x \<in> set xs. x \<noteq> [])"

text \<open>The decimal digits of a natural number, and \<open>str(n)\<close> of an \<open>int\<close>.\<close>

fun digits :: "nat \<Rightarrow> str" where
  "digits n = (if n < 10 then [48 + n] else digits (n div 10) @ [48 + n mod 10])"

declare digits.simps [simp del]

definition str_of_int :: "int \<Rightarrow> str" where
  "str_of_int i = (if i < 0 then 45 # digits (nat (- i)) else digits (nat i))"

text \<open>
  \<open>xs[:n]\<close>: a negative bound counts from the end, and the slice is clipped to the list.
\<close>

definition slice_to :: "int \<Rightarrow> 'a list \<Rightarrow> 'a list" where
  "slice_to n xs = (if 0 \<le> n then take (nat n) xs else take (length xs - nat (- n)) xs)"

subsection \<open>Parsed JSON\<close>

text \<open>
  The result of \<open>json.loads\<close>: \<open>None\<close>, \<open>bool\<close>, \<open>int\<close>, \<open>float\<close> (by its value), \<open>str\<close>,
  \<open>list\<close> and \<open>dict\<close>. A \<open>dict\<close> is an association list; a lookup takes the first
  binding of a key.
\<close>

datatype json =
    JNull
  | JBool bool
  | JInt int
  | JFloat rat
  | JStr str
  | JArr "json list"
  | JObj "(str \<times> json) list"

text \<open>Truth value of an object in a condition (\<open>if not question\<close>, \<open>if r.get("link")\<close>).\<close>

fun truthy :: "json \<Rightarrow> bool" where
  "truthy JNull = False"
| "truthy (JBool b) = b"
| "truthy (JInt i) = (i \<noteq> 0)"
| "truthy (JFloat r) = (r \<noteq> 0)"
| "truthy (JStr s) = (s \<noteq> [])"
| "truthy (JArr xs) = (xs \<noteq> [])"
| "truthy (JObj kvs) = (kvs \<noteq> [])"

subsection \<open>Exceptions\<close>

text \<open>
  The exceptions (all subclasses of \<open>Exception\<close>) that the libraries and the interpreter
  raise in the modelled code. \<open>TimeoutException\<close> and \<open>StaleElementReferenceException\<close>
  are subclasses of selenium's \<open>WebDriverException\<close>; \<open>MaxRetryError\<close> is urllib3's, raised
  by a driver command when the connection to the browser driver is lost.
\<close>

datatype exn =
    TimeoutException
  | WebDriverException
  | StaleElementReferenceException
  | MaxRetryError
  | ConnectionError
  | HTTPError
  | JSONDecodeError
  | KeyError
  | IndexError
  | TypeError
  | AttributeError

text \<open>What \<open>except (TimeoutException, WebDriverException)\<close> catches.\<close>

fun isinstance_WebDriverException :: "exn \<Rightarrow> bool" where
  "isinstance_WebDriverException TimeoutException = True"
| "isinstance_WebDriverException WebDriverException = True"
| "isinstance_WebDriverException StaleElementReferenceException = True"
| "isinstance_WebDriverException _ = False"

subsection \<open>Operations on parsed JSON\<close>

text \<open>\<open>d.get(key, default)\<close>; on anything but a \<open>dict\<close> there is no such attribute.\<close>

fun get :: "json \<Rightarrow> str \<Rightarrow> json \<Rightarrow> exn + json" where
  "get (JObj kvs) k d = Inr (case map_of kvs k of None \<Rightarrow> d | Some v \<Rightarrow> v)"
| "get _ k d = Inl AttributeError"

text \<open>\<open>v[key]\<close> with a string key.\<close>

fun getitem :: "json \<Rightarrow> str \<Rightarrow> exn + json" where
  "getitem (JObj kvs) k = (case map_of kvs k of None \<Rightarrow> Inl KeyError | Some v \<Rightarrow> Inr v)"
| "getitem _ k = Inl TypeError"

text \<open>\<open>v[0]\<close>. The keys of a parsed object are strings, so \<open>0\<close> is never one of them.\<close>

fun getitem0 :: "json \<Rightarrow> exn + json" where
  "getitem0 (JArr []) = Inl IndexError"
| "getitem0 (JArr (x # xs)) = Inr x"
| "getitem0 (JStr []) = Inl IndexError"
| "getitem0 (JStr (c # cs)) = Inr (JStr [c])"
| "getitem0 (JObj kvs) = Inl KeyError"
| "getitem0 _ = Inl TypeError"

text \<open>\<open>v.strip()\<close>.\<close>

fun strip_method :: "json \<Rightarrow> exn + str" where
  "strip_method (JStr s) = Inr (strip s)"
| "strip_method _ = Inl AttributeError"

section \<open>The outside world\<close>

text \<open>
  A response of \<open>requests\<close>: its status code and what \<open>resp.json()\<close> gives, \<open>None\<close> when the
  body is not JSON. \<open>RequestFailed\<close> is a request that raised instead (a network error).
\<close>

datatype http_outcome =
    RequestFailed exn
  | HttpResponse int "json option"

text \<open>
  An element of a loaded page, as selenium shows it: tag name, rendered text, \<open>href\<close>
  attribute, classes, and its child elements in document order. Reading anything from a
  stale element raises \<open>StaleElementReferenceException\<close>.
\<close>

datatype element =
  Element (el_tag_name: str) (el_text: str) (el_href: "str option") (el_classes: "str list")
    (el_stale: bool) (el_children: "element list")

type_synonym page = "element list"

datatype nav_outcome =
    Loaded page
  | NavRaises exn

text \<open>The outbound calls, in the order they are made.\<close>

datatype call =
    SearchGet json str int
  | ChromeStart
  | SetPageLoadTimeout int
  | PageLoad json
  | ChromeQuit
  | GeminiPost str str

text \<open>
  What the collaborators answer: the search API to \<open>requests.get\<close> (query, key, \<open>num\<close>), the
  browser to \<open>driver.get\<close> (page-load timeout, url), the language-model API to
  \<open>requests.post\<close> (key, prompt); the exception, if any, that \<open>webdriver.Chrome\<close>,
  \<open>driver.set_page_load_timeout\<close> and \<open>driver.quit\<close> raise; the two configured keys; and
  the texts that Python gives for \<open>str(e)\<close> of an exception and for a value other than a
  string inside an f-string.
\<close>

record world =
  requests_get :: "json \<Rightarrow> str \<Rightarrow> int \<Rightarrow> http_outcome"
  webdriver_Chrome :: "exn option"
  set_page_load_timeout :: "int \<Rightarrow> exn option"
  driver_get :: "int \<Rightarrow> json \<Rightarrow> nav_outcome"
  driver_quit :: "exn option"
  requests_post :: "str \<Rightarrow> str \<Rightarrow> http_outcome"
  SERPAPI_KEY :: str
  GEMINI_API_KEY :: str
  exn_str :: "exn \<Rightarrow> str"
  value_str :: "json \<Rightarrow> str"

section \<open>Utilities\<close>

text \<open>
  \<open>is_valid_text(text)\<close>:
  \<open>text and len(text.strip()) > 0 and not text.strip().startswith("By ")\<close>.
\<close>

definition is_valid_text :: "str \<Rightarrow> bool" where
  "is_valid_text text \<longleftrightarrow>
     text \<noteq> [] \<and> length (strip text) > 0 \<and> \<not> startswith (strip text) (u ''By '')"

section \<open>Search Resolver: \<open>get_links_from_serpapi\<close>\<close>

text \<open>\<open>resp.raise_for_status()\<close> raises \<open>HTTPError\<close> for the statuses 400..599.\<close>

definition raise_for_status :: "int \<Rightarrow> exn + unit" where
  "raise_for_status status = (if 400 \<le> status \<and> status < 600 then Inl HTTPError else Inr ())"

definition resp_json :: "json option \<Rightarrow> exn + json" where
  "resp_json body = (case body of None \<Rightarrow> Inl JSONDecodeError | Some v \<Rightarrow> Inr v)"

text \<open>
  \<open>v[:max_results]\<close>, as the sequence that the comprehension then iterates: a list gives
  its items, a string its characters; nothing else can be sliced (a \<open>dict\<close> raises
  \<open>TypeError\<close>, or \<open>KeyError\<close> from Python 3.12 on).
\<close>

fun slice_items :: "json \<Rightarrow> int \<Rightarrow> exn + json list" where
  "slice_items (JArr xs) n = Inr (slice_to n xs)"
| "slice_items (JStr s) n = Inr (map (\<lambda>c. JStr [c]) (slice_to n s))"
| "slice_items _ n = Inl TypeError"

text \<open>\<open>[r.get("link") for r in rs if r.get("link")]\<close>.\<close>

fun links_of :: "json list \<Rightarrow> exn + json list" where
  "links_of [] = Inr []"
| "links_of (r # rs) =
     (case get r (u ''link'') JNull of
        Inl e \<Rightarrow> Inl e
      | Inr l \<Rightarrow>
          (case links_of rs of
             Inl e \<Rightarrow> Inl e
           | Inr ls \<Rightarrow> Inr (if truthy l then l # ls else ls)))"

text \<open>The body of the \<open>try\<close>.\<close>

definition serpapi_try :: "http_outcome \<Rightarrow> int \<Rightarrow> exn + json list" where
  "serpapi_try resp max_results =
     (case resp of
        RequestFailed e \<Rightarrow> Inl e
      | HttpResponse status body \<Rightarrow>
          (case raise_for_status status of
             Inl e \<Rightarrow> Inl e
           | Inr _ \<Rightarrow>
               (case resp_json body of
                  Inl e \<Rightarrow> Inl e
                | Inr data \<Rightarrow>
                    (case get data (u ''organic_results'') (JArr []) of
                       Inl e \<Rightarrow> Inl e
                     | Inr results \<Rightarrow>
                         (case slice_items results max_results of
                            Inl e \<Rightarrow> Inl e
                          | Inr rs \<Rightarrow> links_of rs)))))"

text \<open>\<open>except Exception: return []\<close>. The result comes with the call that was made.\<close>

definition get_links_from_serpapi :: "world \<Rightarrow> json \<Rightarrow> str \<Rightarrow> int \<Rightarrow> json list \<times> call list" where
  "get_links_from_serpapi w query api_key max_results =
     ((case serpapi_try (requests_get w query api_key max_results) max_results of
         Inl e \<Rightarrow> []
       | Inr links \<Rightarrow> links),
      [SearchGet query api_key max_results])"

section \<open>Content Extractor: \<open>scrape_links\<close>\<close>

subsection \<open>Querying the page\<close>

text \<open>The element with everything below it, in document order.\<close>

fun subtree :: "element \<Rightarrow> element list" where
  "subtree (Element t x h c s kids) = Element t x h c s kids # concat (map subtree kids)"

definition descendants :: "element \<Rightarrow> element list" where
  "descendants el = concat (map subtree (el_children el))"

definition document :: "page \<Rightarrow> element list" where
  "document pg = concat (map subtree pg)"

text \<open>
  The locators of the source: the XPath union \<open>//h1 | //h2 | //h3 | //p | //a\<close> (as the
  list of its tag names), \<open>By.CLASS_NAME\<close>, \<open>By.TAG_NAME\<close>, and the CSS selectors of the form
  \<open>tag.class1.class2\<close>. Tag names are those of an HTML document, in lower case.
\<close>

datatype locator =
    XPATH "str list"
  | CLASS_NAME str
  | TAG_NAME str
  | CSS_SELECTOR str "str list"

fun matches :: "locator \<Rightarrow> element \<Rightarrow> bool" where
  "matches (XPATH tags) el \<longleftrightarrow> el_tag_name el \<in> set tags"
| "matches (CLASS_NAME c) el \<longleftrightarrow> c \<in> set (el_classes el)"
| "matches (TAG_NAME t) el \<longleftrightarrow> el_tag_name el = t"
| "matches (CSS_SELECTOR t cs) el \<longleftrightarrow> el_tag_name el = t \<and> set cs \<subseteq> set (el_classes el)"

text \<open>\<open>driver.find_elements(by, value)\<close>: the matching elements in document order.\<close>

definition driver_find_elements :: "page \<Rightarrow> locator \<Rightarrow> element list" where
  "driver_find_elements pg b = filter (matches b) (document pg)"

text \<open>\<open>el.find_elements(by, value)\<close>: the matching elements below \<open>el\<close>.\<close>

definition find_elements :: "element \<Rightarrow> locator \<Rightarrow> exn + element list" where
  "find_elements el b =
     (if el_stale el then Inl StaleElementReferenceException
      else Inr (filter (matches b) (descendants el)))"

text \<open>\<open>el.tag_name\<close>, \<open>el.text\<close> and \<open>el.get_attribute("href")\<close>.\<close>

definition tag_name :: "element \<Rightarrow> exn + str" where
  "tag_name el = (if el_stale el then Inl StaleElementReferenceException else Inr (el_tag_name el))"

definition text_of :: "element \<Rightarrow> exn + str" where
  "text_of el = (if el_stale el then Inl StaleElementReferenceException else Inr (el_text el))"

definition get_attribute_href :: "element \<Rightarrow> exn + str option" where
  "get_attribute_href el =
     (if el_stale el then Inl StaleElementReferenceException else Inr (el_href el))"

text \<open>\<open>el.text.strip()\<close>.\<close>

definition text_strip :: "element \<Rightarrow> exn + str" where
  "text_strip el = (case text_of el of Inl e \<Rightarrow> Inl e | Inr t \<Rightarrow> Inr (strip t))"

subsection \<open>Loops that append to \<open>extracted\<close>\<close>

text \<open>
  A statement takes \<open>extracted\<close> and gives it back, with the exception it raised, if any:
  what was appended before the exception stays. \<open>for x in xs: body\<close> stops at the first
  exception.
\<close>

fun for_each :: "('a \<Rightarrow> str \<Rightarrow> exn option \<times> str) \<Rightarrow> 'a list \<Rightarrow> str \<Rightarrow> exn option \<times> str" where
  "for_each body [] extracted = (None, extracted)"
| "for_each body (x # xs) extracted =
     (case body x extracted of
        (Some e, extracted') \<Rightarrow> (Some e, extracted')
      | (None, extracted') \<Rightarrow> for_each body xs extracted')"

definition nl :: str where
  "nl = [10]"

definition tab :: str where
  "tab = [9]"

subsection \<open>Generic text nodes\<close>

definition generic_body :: "element \<Rightarrow> str \<Rightarrow> exn option \<times> str" where
  "generic_body el extracted =
     (case tag_name el of
        Inl e \<Rightarrow> (Some e, extracted)
      | Inr tn \<Rightarrow>
          (case text_strip el of
             Inl e \<Rightarrow> (Some e, extracted)
           | Inr text \<Rightarrow>
               if lower tn = u ''a'' then
                 (case get_attribute_href el of
                    Inl e \<Rightarrow> (Some e, extracted)
                  | Inr None \<Rightarrow> (None, extracted)
                  | Inr (Some href) \<Rightarrow>
                      if text \<noteq> [] \<and> href \<noteq> []
                      then (None, extracted @ u ''['' @ text @ u '']('' @ href @ u '')'' @ nl)
                      else (None, extracted))
               else if is_valid_text text then (None, extracted @ text @ nl)
               else (None, extracted)))"

definition generic_strategy :: "page \<Rightarrow> str \<Rightarrow> exn option \<times> str" where
  "generic_strategy pg extracted =
     for_each generic_body
       (driver_find_elements pg (XPATH [u ''h1'', u ''h2'', u ''h3'', u ''p'', u ''a'']))
       extracted"

subsection \<open>Cafe-specific scraping\<close>

text \<open>
  \<open>cafe.find_element(By.CLASS_NAME, c).text.strip() if cafe.find_elements(By.CLASS_NAME, c)
  else ""\<close>: \<open>find_element\<close> gives the first match.
\<close>

definition sub_field :: "element \<Rightarrow> str \<Rightarrow> exn + str" where
  "sub_field cafe c =
     (case find_elements cafe (CLASS_NAME c) of
        Inl e \<Rightarrow> Inl e
      | Inr [] \<Rightarrow> Inr []
      | Inr (el # els) \<Rightarrow> text_strip el)"

definition cafe_body :: "element \<Rightarrow> str \<Rightarrow> exn option \<times> str" where
  "cafe_body cafe extracted =
     (case sub_field cafe (u ''sc-1hp8d8a-0'') of
        Inl e \<Rightarrow> (Some e, extracted)
      | Inr name \<Rightarrow>
          (case sub_field cafe (u ''fSxdnq'') of
             Inl e \<Rightarrow> (Some e, extracted)
           | Inr category \<Rightarrow>
               (case sub_field cafe (u ''KXcjT'') of
                  Inl e \<Rightarrow> (Some e, extracted)
                | Inr price \<Rightarrow>
                    if name \<noteq> [] \<or> category \<noteq> [] \<or> price \<noteq> []
                    then (None, extracted @ nl @ u ''Name: '' @ name @ nl @ u ''Category: ''
                            @ category @ nl @ u ''Price for two: '' @ price @ nl)
                    else (None, extracted))))"

definition cafe_strategy :: "page \<Rightarrow> str \<Rightarrow> exn option \<times> str" where
  "cafe_strategy pg extracted =
     for_each cafe_body (driver_find_elements pg (CLASS_NAME (u ''sc-1q7bklc-10''))) extracted"

subsection \<open>Additional selectors\<close>

text \<open>\<open>els[i].text.strip() if i < len(els) else ""\<close>.\<close>

definition text_at :: "element list \<Rightarrow> nat \<Rightarrow> exn + str" where
  "text_at els i = (if i < length els then text_strip (els ! i) else Inr [])"

definition directory_body ::
  "element list \<Rightarrow> element list \<Rightarrow> element list \<Rightarrow> nat \<Rightarrow> str \<Rightarrow> exn option \<times> str" where
  "directory_body names ratings addresses i extracted =
     (case text_at names i of
        Inl e \<Rightarrow> (Some e, extracted)
      | Inr name \<Rightarrow>
          (case text_at ratings i of
             Inl e \<Rightarrow> (Some e, extracted)
           | Inr rating \<Rightarrow>
               (case text_at addresses i of
                  Inl e \<Rightarrow> (Some e, extracted)
                | Inr address \<Rightarrow>
                    if name \<noteq> [] \<or> rating \<noteq> [] \<or> address \<noteq> []
                    then (None, extracted @ nl @ u ''Name: '' @ name @ nl @ u ''Rating: ''
                            @ rating @ nl @ u ''Address: '' @ address @ nl)
                    else (None, extracted))))"

definition directory_strategy :: "page \<Rightarrow> str \<Rightarrow> exn option \<times> str" where
  "directory_strategy pg extracted =
     (let names = driver_find_elements pg
            (CSS_SELECTOR (u ''h3'') [u ''jsx-7cbb814d75c86232'', u ''resultbox_title_anchor'']);
          ratings = driver_find_elements pg (CSS_SELECTOR (u ''li'') [u ''resultbox_totalrate'']);
          addresses = driver_find_elements pg (CSS_SELECTOR (u ''div'') [u ''locatcity''])
      in for_each (directory_body names ratings addresses) [0 ..< length names] extracted)"

subsection \<open>Tables\<close>

text \<open>\<open>[cell.text.strip() for cell in cells]\<close>.\<close>

fun cell_texts :: "element list \<Rightarrow> exn + str list" where
  "cell_texts [] = Inr []"
| "cell_texts (cell # cells) =
     (case text_strip cell of
        Inl e \<Rightarrow> Inl e
      | Inr t \<Rightarrow> (case cell_texts cells of Inl e \<Rightarrow> Inl e | Inr ts \<Rightarrow> Inr (t # ts)))"

definition row_body :: "element \<Rightarrow> str \<Rightarrow> exn option \<times> str" where
  "row_body row extracted =
     (case find_elements row (TAG_NAME (u ''th'')) of
        Inl e \<Rightarrow> (Some e, extracted)
      | Inr ths \<Rightarrow>
          (case find_elements row (TAG_NAME (u ''td'')) of
             Inl e \<Rightarrow> (Some e, extracted)
           | Inr tds \<Rightarrow>
               (case cell_texts (ths @ tds) of
                  Inl e \<Rightarrow> (Some e, extracted)
                | Inr texts \<Rightarrow>
                    if any_str texts then (None, extracted @ join tab texts @ nl)
                    else (None, extracted))))"

definition table_body :: "element \<Rightarrow> str \<Rightarrow> exn option \<times> str" where
  "table_body table extracted =
     (case find_elements table (TAG_NAME (u ''tr'')) of
        Inl e \<Rightarrow> (Some e, extracted)
      | Inr rows \<Rightarrow> for_each row_body rows extracted)"

definition table_strategy :: "page \<Rightarrow> str \<Rightarrow> exn option \<times> str" where
  "table_strategy pg extracted =
     for_each table_body (driver_find_elements pg (TAG_NAME (u ''table''))) extracted"

subsection \<open>The loop over the links\<close>

text \<open>
  What the loop body does with a loaded page. Every \<open>try\<close> around a strategy ends in
  \<open>except: continue\<close>, which goes on with the next url.
\<close>

definition scrape_page :: "page \<Rightarrow> str \<Rightarrow> str" where
  "scrape_page pg extracted =
     (case generic_strategy pg extracted of
        (Some e, extracted1) \<Rightarrow> extracted1
      | (None, extracted1) \<Rightarrow>
          (case cafe_strategy pg extracted1 of
             (Some e, extracted2) \<Rightarrow> extracted2
           | (None, extracted2) \<Rightarrow>
               (case directory_strategy pg extracted2 of
                  (Some e, extracted3) \<Rightarrow> extracted3
                | (None, extracted3) \<Rightarrow>
                    (case table_strategy pg extracted3 of
                       (Some e, extracted4) \<Rightarrow> extracted4
                     | (None, extracted4) \<Rightarrow> extracted4))))"

text \<open>
  \<open>for url in links\<close>: \<open>driver.get(url)\<close> inside
  \<open>except (TimeoutException, WebDriverException): continue\<close>; any other exception leaves
  the loop and the function. The result comes with the page loads that were made.
\<close>

fun scrape_loop :: "world \<Rightarrow> int \<Rightarrow> json list \<Rightarrow> str \<Rightarrow> (exn + str) \<times> call list" where
  "scrape_loop w load_timeout [] extracted = (Inr extracted, [])"
| "scrape_loop w load_timeout (url # links) extracted =
     (case driver_get w load_timeout url of
        NavRaises e \<Rightarrow>
          if isinstance_WebDriverException e
          then (case scrape_loop w load_timeout links extracted of
                  (r, calls) \<Rightarrow> (r, PageLoad url # calls))
          else (Inl e, [PageLoad url])
      | Loaded pg \<Rightarrow>
          (case scrape_loop w load_timeout links (scrape_page pg extracted) of
             (r, calls) \<Rightarrow> (r, PageLoad url # calls)))"

text \<open>
  \<open>scrape_links(links, load_timeout=7)\<close>. \<open>webdriver.Chrome(options=options)\<close> and
  \<open>driver.set_page_load_timeout(load_timeout)\<close> stand outside every \<open>try\<close>: when one of
  them raises, the exception leaves the function. Then the loop runs from
  \<open>extracted = ""\<close>; an exception that leaves the loop leaves the function. After the
  loop comes \<open>driver.quit()\<close>, which may raise as well, and \<open>return extracted\<close>.
\<close>

definition scrape_links :: "world \<Rightarrow> json list \<Rightarrow> int \<Rightarrow> (exn + str) \<times> call list" where
  "scrape_links w links load_timeout =
     (case webdriver_Chrome w of
        Some e \<Rightarrow> (Inl e, [ChromeStart])
      | None \<Rightarrow>
          (case set_page_load_timeout w load_timeout of
             Some e \<Rightarrow> (Inl e, [ChromeStart, SetPageLoadTimeout load_timeout])
           | None \<Rightarrow>
               (case scrape_loop w load_timeout links [] of
                  (Inl e, calls) \<Rightarrow>
                    (Inl e, ChromeStart # SetPageLoadTimeout load_timeout # calls)
                | (Inr extracted, calls) \<Rightarrow>
                    (case driver_quit w of
                       Some e \<Rightarrow>
                         (Inl e, ChromeStart # SetPageLoadTimeout load_timeout # calls
                                   @ [ChromeQuit])
                     | None \<Rightarrow>
                         (Inr extracted, ChromeStart # SetPageLoadTimeout load_timeout # calls
                                           @ [ChromeQuit])))))"

section \<open>Answer Synthesizer: \<open>query_gemini\<close>\<close>

text \<open>A value inside an f-string: a string as it is, anything else by \<open>str()\<close>.\<close>

definition format_value :: "world \<Rightarrow> json \<Rightarrow> str" where
  "format_value w v = (case v of JStr s \<Rightarrow> s | _ \<Rightarrow> value_str w v)"

definition prompt :: "world \<Rightarrow> json \<Rightarrow> str \<Rightarrow> str" where
  "prompt w user_question scraped_text =
     u ''You are an AI assistant helping the user answer a question using only the provided web data. ''
     @ u ''If no relevant content is found, use your own intelligence.'' @ nl @ nl
     @ u ''Give verbose output to the user''
     @ u ''=== Scraped Web Content Start ==='' @ nl
     @ scraped_text @ nl
     @ u ''=== Scraped Web Content End ==='' @ nl @ nl
     @ u ''User's question: '' @ format_value w user_question @ nl
     @ u ''- Don't give reference to the source.'' @ nl
     @ u ''- If no data, answer naturally.'' @ nl"

text \<open>The cross mark U+274C that starts the error messages.\<close>

definition cross_mark :: str where
  "cross_mark = [10060]"

text \<open>\<open>data["candidates"][0]["content"]["parts"][0]["text"].strip()\<close>.\<close>

definition candidate_text :: "json \<Rightarrow> exn + str" where
  "candidate_text data =
     (case getitem data (u ''candidates'') of
        Inl e \<Rightarrow> Inl e
      | Inr candidates \<Rightarrow>
          (case getitem0 candidates of
             Inl e \<Rightarrow> Inl e
           | Inr candidate \<Rightarrow>
               (case getitem candidate (u ''content'') of
                  Inl e \<Rightarrow> Inl e
                | Inr content \<Rightarrow>
                    (case getitem content (u ''parts'') of
                       Inl e \<Rightarrow> Inl e
                     | Inr parts \<Rightarrow>
                         (case getitem0 parts of
                            Inl e \<Rightarrow> Inl e
                          | Inr part \<Rightarrow>
                              (case getitem part (u ''text'') of
                                 Inl e \<Rightarrow> Inl e
                               | Inr t \<Rightarrow> strip_method t))))))"

text \<open>The body of the \<open>try\<close>: the value returned, or the exception raised.\<close>

definition gemini_try :: "http_outcome \<Rightarrow> exn + str" where
  "gemini_try resp =
     (case resp of
        RequestFailed e \<Rightarrow> Inl e
      | HttpResponse status body \<Rightarrow>
          if status = 200 then
            (case resp_json body of
               Inl e \<Rightarrow> Inl e
             | Inr data \<Rightarrow> candidate_text data)
          else Inr (cross_mark @ u '' Gemini Error: '' @ str_of_int status))"

text \<open>\<open>except Exception as e: return f"... Gemini request failed: {e}"\<close>.\<close>

definition query_gemini :: "world \<Rightarrow> json \<Rightarrow> str \<Rightarrow> str \<Rightarrow> (exn + str) \<times> call list" where
  "query_gemini w user_question scraped_text api_key =
     (let p = prompt w user_question scraped_text in
      (case gemini_try (requests_post w api_key p) of
         Inl e \<Rightarrow> Inr (cross_mark @ u '' Gemini request failed: '' @ exn_str w e)
       | Inr answer \<Rightarrow> Inr answer,
       [GeminiPost api_key p]))"

section \<open>Pipeline Orchestrator: \<open>handle_query\<close>\<close>

text \<open>
  The response: \<open>JSONResponse({"answer": a}, status_code=400)\<close>, or the dictionary
  \<open>{"answer": a}\<close> that the framework sends with status 200.
\<close>

datatype response = Response (status_code: int) (answer: str)

definition warning_sign :: str where
  "warning_sign = [9888, 65039]"

definition missing_question :: str where
  "missing_question = warning_sign @ u '' Missing 'question' in request.''"

definition no_search_results :: str where
  "no_search_results = cross_mark @ u '' No search results found.''"

definition no_content_extracted :: str where
  "no_content_extracted = cross_mark @ u '' No content extracted from search results.''"

text \<open>
  \<open>handle_query\<close> on the parsed request body. \<open>data.get\<close> raises on a body that is not an
  object, and an exception that leaves \<open>scrape_links\<close> leaves the handler.
\<close>

definition handle_query :: "world \<Rightarrow> json \<Rightarrow> (exn + response) \<times> call list" where
  "handle_query w data =
     (case get data (u ''question'') (JStr []) of
        Inl e \<Rightarrow> (Inl e, [])
      | Inr question \<Rightarrow>
          if \<not> truthy question then (Inr (Response 400 missing_question), [])
          else
            (case get_links_from_serpapi w question (SERPAPI_KEY w) 5 of
               (links, calls1) \<Rightarrow>
                 if links = [] then (Inr (Response 200 no_search_results), calls1)
                 else
                   (case scrape_links w links 7 of
                      (Inl e, calls2) \<Rightarrow> (Inl e, calls1 @ calls2)
                    | (Inr scraped, calls2) \<Rightarrow>
                        if strip scraped = []
                        then (Inr (Response 200 no_content_extracted), calls1 @ calls2)
                        else
                          (case query_gemini w question scraped (GEMINI_API_KEY w) of
                             (Inl e, calls3) \<Rightarrow> (Inl e, calls1 @ calls2 @ calls3)
                           | (Inr a, calls3) \<Rightarrow>
                               (Inr (Response 200 a), calls1 @ calls2 @ calls3)))))"

section \<open>Reference definitions for the claims\<close>

subsection \<open>Search results\<close>

text \<open>The link of one result entry, \<open>None\<close> when the entry has none.\<close>

definition link_field :: "json \<Rightarrow> json" where
  "link_field r = (case get r (u ''link'') JNull of Inl e \<Rightarrow> JNull | Inr l \<Rightarrow> l)"

text \<open>
  The two orders of the two steps: dropping the entries without a link and then cutting
  to \<open>max_results\<close>, as the specification words it, and cutting first.
\<close>

definition filter_then_truncate :: "json list \<Rightarrow> int \<Rightarrow> json list" where
  "filter_then_truncate results max_results =
     slice_to max_results (filter truthy (map link_field results))"

definition truncate_then_filter :: "json list \<Rightarrow> int \<Rightarrow> json list" where
  "truncate_then_filter results max_results =
     filter truthy (map link_field (slice_to max_results results))"

text \<open>
  The failures of a search request: the request raised; the status is 400..599; the body
  is not JSON, or not an object; \<open>organic_results\<close> is absent, empty or not a list, or one
  of its first \<open>n\<close> entries is not an object.
\<close>

fun search_failure :: "http_outcome \<Rightarrow> int \<Rightarrow> bool" where
  "search_failure (RequestFailed e) n = True"
| "search_failure (HttpResponse status None) n = True"
| "search_failure (HttpResponse status (Some (JObj kvs))) n =
     ((400 \<le> status \<and> status < 600) \<or>
      (case map_of kvs (u ''organic_results'') of
         None \<Rightarrow> True
       | Some (JArr results) \<Rightarrow>
           results = [] \<or>
           list_ex (\<lambda>r. case r of JObj f \<Rightarrow> False | _ \<Rightarrow> True) (slice_to n results)
       | Some v \<Rightarrow> True))"
| "search_failure (HttpResponse status (Some v)) n = True"

subsection \<open>The response envelope of the language model\<close>

fun field :: "json \<Rightarrow> str \<Rightarrow> json option" where
  "field (JObj kvs) k = map_of kvs k"
| "field _ k = None"

fun first_item :: "json \<Rightarrow> json option" where
  "first_item (JArr (x # xs)) = Some x"
| "first_item _ = None"

fun string_value :: "json \<Rightarrow> str option" where
  "string_value (JStr s) = Some s"
| "string_value _ = None"

text \<open>
  The generated text of a well-formed response
  \<open>{"candidates": [{"content": {"parts": [{"text": t}]}}]}\<close>.
\<close>

definition envelope_text :: "json \<Rightarrow> str option" where
  "envelope_text data =
     Option.bind (field data (u ''candidates'')) (\<lambda>candidates.
     Option.bind (first_item candidates) (\<lambda>candidate.
     Option.bind (field candidate (u ''content'')) (\<lambda>content.
     Option.bind (field content (u ''parts'')) (\<lambda>parts.
     Option.bind (first_item parts) (\<lambda>part.
     Option.bind (field part (u ''text'')) string_value)))))"

definition response_text :: "json option \<Rightarrow> str option" where
  "response_text body = Option.bind body envelope_text"

subsection \<open>The lines of a table\<close>

definition rows_of :: "element \<Rightarrow> element list" where
  "rows_of table = filter (matches (TAG_NAME (u ''tr''))) (descendants table)"

text \<open>The cells of a row as the code collects them, and in document order.\<close>

definition header_then_data_cells :: "element \<Rightarrow> element list" where
  "header_then_data_cells row =
     filter (matches (TAG_NAME (u ''th''))) (descendants row)
     @ filter (matches (TAG_NAME (u ''td''))) (descendants row)"

definition cells_in_document_order :: "element \<Rightarrow> element list" where
  "cells_in_document_order row =
     filter (\<lambda>el. el_tag_name el = u ''th'' \<or> el_tag_name el = u ''td'') (descendants row)"

definition row_texts :: "element \<Rightarrow> str list" where
  "row_texts row = map (\<lambda>cell. strip (el_text cell)) (header_then_data_cells row)"

definition row_line :: "element \<Rightarrow> str" where
  "row_line row = (if any_str (row_texts row) then join tab (row_texts row) @ nl else [])"

text \<open>One tab-separated line for every row whose trimmed cells are not all empty.\<close>

definition table_lines :: "element \<Rightarrow> str" where
  "table_lines table =
     concat (map (\<lambda>texts. join tab texts @ nl) (filter any_str (map row_texts (rows_of table))))"

subsection \<open>Page loads\<close>

text \<open>
  A page load that does not end the loop: the page is loaded, or the exception is one
  that the \<open>except\<close> clause around \<open>driver.get\<close> catches.
\<close>

definition load_survives :: "world \<Rightarrow> int \<Rightarrow> json \<Rightarrow> bool" where
  "load_survives w t url =
     (case driver_get w t url of
        Loaded pg \<Rightarrow> True
      | NavRaises e \<Rightarrow> isinstance_WebDriverException e)"

subsection \<open>The records of the listing cards\<close>

definition listing_cards :: "page \<Rightarrow> element list" where
  "listing_cards pg = driver_find_elements pg (CLASS_NAME (u ''sc-1q7bklc-10''))"





section \<open>Example inputs\<close>

text \<open>A world whose collaborators answer the same to every call.\<close>

definition constant_world ::
  "http_outcome \<Rightarrow> (json \<Rightarrow> nav_outcome) \<Rightarrow> http_outcome \<Rightarrow> world" where
  "constant_world search browser model =
     \<lparr> requests_get = (\<lambda>query api_key num. search),
       webdriver_Chrome = None,
       set_page_load_timeout = (\<lambda>load_timeout. None),
       driver_get = (\<lambda>load_timeout url. browser url),
       driver_quit = None,
       requests_post = (\<lambda>api_key p. model),
       SERPAPI_KEY = u ''serp-key'', GEMINI_API_KEY = u ''gemini-key'',
       exn_str = (\<lambda>e. u ''error''), value_str = (\<lambda>v. u ''value'') \<rparr>"

definition offline :: world where
  "offline = constant_world (RequestFailed ConnectionError) (\<lambda>url. NavRaises TimeoutException)
     (RequestFailed ConnectionError)"

text \<open>
  Worlds in which the browser does not start, the page-load timeout cannot be set, and
  the browser cannot be quit.
\<close>

definition no_driver :: world where
  "no_driver = offline \<lparr> webdriver_Chrome := Some WebDriverException \<rparr>"

definition timeout_rejected :: world where
  "timeout_rejected = offline \<lparr> set_page_load_timeout := (\<lambda>t. Some WebDriverException) \<rparr>"

definition quit_fails :: world where
  "quit_fails = offline \<lparr> driver_quit := Some WebDriverException \<rparr>"

definition question_body :: "string \<Rightarrow> json" where
  "question_body q = JObj [(u ''question'', JStr (u q))]"

definition one_result :: json where
  "one_result = JObj [(u ''organic_results'', JArr [JObj [(u ''link'', JStr (u ''http://a''))]])]"

text \<open>Two results, the first without a link.\<close>

definition unlinked_first :: "json list" where
  "unlinked_first = [JObj [(u ''title'', JStr (u ''t''))], JObj [(u ''link'', JStr (u ''http://a''))]]"

definition ranked :: world where
  "ranked = constant_world (HttpResponse 200 (Some (JObj [(u ''organic_results'', JArr unlinked_first)])))
     (\<lambda>url. NavRaises TimeoutException) (RequestFailed ConnectionError)"

definition not_modified :: world where
  "not_modified = constant_world (HttpResponse 304 (Some one_result))
     (\<lambda>url. NavRaises TimeoutException) (RequestFailed ConnectionError)"

definition unreachable_pages :: world where
  "unreachable_pages = constant_world (HttpResponse 200 (Some one_result))
     (\<lambda>url. NavRaises TimeoutException) (RequestFailed ConnectionError)"

definition lost_driver :: world where
  "lost_driver = constant_world (HttpResponse 200 (Some one_result))
     (\<lambda>url. NavRaises MaxRetryError) (RequestFailed ConnectionError)"

definition reply :: "string \<Rightarrow> json" where
  "reply t = JObj [(u ''candidates'', JArr [JObj [(u ''content'',
     JObj [(u ''parts'', JArr [JObj [(u ''text'', JStr (u t))]])])]])]"

definition answering :: world where
  "answering = constant_world (RequestFailed ConnectionError) (\<lambda>url. NavRaises TimeoutException)
     (HttpResponse 200 (Some (reply '' Paris. '')))"

definition unavailable :: world where
  "unavailable = constant_world (RequestFailed ConnectionError) (\<lambda>url. NavRaises TimeoutException)
     (HttpResponse 503 None)"

text \<open>Elements that can be read, without attributes; and an element given one more class.\<close>

definition plain :: "string \<Rightarrow> string \<Rightarrow> element list \<Rightarrow> element" where
  "plain t x kids = Element (u t) (u x) None [] False kids"

definition with_class :: "string \<Rightarrow> element \<Rightarrow> element" where
  "with_class c el =
     Element (el_tag_name el) (el_text el) (el_href el) (u c # el_classes el) (el_stale el)
       (el_children el)"

text \<open>A page with a heading, a stale paragraph and a table; and a page with one paragraph.\<close>

definition stale_page :: page where
  "stale_page =
     [plain ''h1'' ''Title'' [],
      Element (u ''p'') (u ''gone'') None [] True [],
      plain ''table'' ''x'' [plain ''tr'' ''x'' [plain ''td'' ''x'' []]]]"

definition hello_page :: page where
  "hello_page = [plain ''p'' ''Hello'' []]"

definition stale_world :: world where
  "stale_world = constant_world (HttpResponse 200 (Some one_result))
     (\<lambda>url. if url = JStr (u ''http://a'') then Loaded stale_page else Loaded hello_page)
     (RequestFailed ConnectionError)"

text \<open>A row whose data cell comes before its header cell.\<close>

definition mixed_row :: element where
  "mixed_row = plain ''tr'' ''a b'' [plain ''td'' ''a'' [], plain ''th'' ''b'' []]"

definition mixed_page :: page where
  "mixed_page = [plain ''table'' ''a b'' [mixed_row]]"

text \<open>A table with one header row and one data row.\<close>

definition price_header :: element where
  "price_header = plain ''tr'' ''Name Price'' [plain ''th'' ''Name'' [], plain ''th'' '' Price '' []]"

definition price_data :: element where
  "price_data = plain ''tr'' ''Tea 5'' [plain ''td'' ''Tea'' [], plain ''td'' ''5'' []]"

definition price_table :: element where
  "price_table = plain ''table'' ''Name Price Tea 5'' [price_header, price_data]"

definition price_page :: page where
  "price_page = [price_table]"

text \<open>A listing card with a name only, and one with nothing in it.\<close>

definition name_element :: element where
  "name_element = with_class ''sc-1hp8d8a-0'' (plain ''h4'' '' Blue Tokai '' [])"

definition name_only_card :: element where
  "name_only_card = with_class ''sc-1q7bklc-10'' (plain ''div'' ''Blue Tokai'' [name_element])"



definition stale_card :: element where
  "stale_card = Element (u ''div'') (u ''gone'') None [u ''sc-1q7bklc-10''] True []"

definition stale_card_page :: page where
  "stale_card_page = [stale_card, name_only_card]"

section \<open>The Search Resolver\<close>

lemma links_of_Inr: "links_of rs = Inr ls \<Longrightarrow> ls = filter truthy (map link_field rs)"
proof (induction rs arbitrary: ls)
  case Nil
  then show ?case by simp
next
  case (Cons r rs)
  then show ?case
    by (cases r) (auto simp: link_field_def split: sum.splits if_splits)
qed

lemma links_of_objects:
  "\<forall>r \<in> set rs. \<exists>kvs. r = JObj kvs \<Longrightarrow> links_of rs = Inr (filter truthy (map link_field rs))"
  by (induction rs) (auto simp: link_field_def)

lemma links_of_not_object:
  "list_ex (\<lambda>r. case r of JObj f \<Rightarrow> False | _ \<Rightarrow> True) rs \<Longrightarrow> \<exists>e. links_of rs = Inl e"
proof (induction rs)
  case Nil
  then show ?case by simp
next
  case (Cons r rs)
  then show ?case by (cases r) (auto split: sum.splits)
qed

lemma links_of_chars: "links_of (map (\<lambda>c. JStr [c]) s) = Inr ls \<Longrightarrow> ls = []"
  by (cases s) auto

lemma length_slice_to: "0 \<le> n \<Longrightarrow> length (slice_to n xs) \<le> nat n"
  by (simp add: slice_to_def)

lemma subseq_slice_to: "subseq (slice_to n xs) xs"
  unfolding slice_to_def by (simp add: prefix_imp_subseq take_is_prefix)

lemma length_truncate_then_filter:
  "0 \<le> n \<Longrightarrow> length (truncate_then_filter rs n) \<le> nat n"
proof -
  assume "0 \<le> n"
  have "length (truncate_then_filter rs n) \<le> length (map link_field (slice_to n rs))"
    unfolding truncate_then_filter_def by (rule length_filter_le)
  also have "\<dots> \<le> nat n"
    using \<open>0 \<le> n\<close> by (simp add: length_slice_to)
  finally show ?thesis .
qed

lemma subseq_truncate_then_filter:
  "subseq (truncate_then_filter rs n) (map link_field rs)"
proof -
  have "subseq (map link_field (slice_to n rs)) (map link_field rs)"
    by (rule subseq_map) (rule subseq_slice_to)
  moreover have "subseq (truncate_then_filter rs n) (map link_field (slice_to n rs))"
    by (simp add: truncate_then_filter_def)
  ultimately show ?thesis by (rule subseq_order.trans [rotated])
qed

text \<open>
  Claim C3, as the code has it. When the search API answers with an object whose
  \<open>organic_results\<close> is a list, \<open>get_links_from_serpapi\<close> first cuts the list to its first
  \<open>max_results\<close> entries and then drops the entries without a link: the result is empty
  or the links of those first entries, and it is the latter whenever those entries are
  objects. The result keeps the ranking order of the API, and for a \<open>max_results\<close> that
  is not negative it has at most \<open>max_results\<close> links.
\<close>

theorem get_links_truncates_then_filters:
  assumes "requests_get w query api_key max_results = HttpResponse status (Some (JObj kvs))"
    and "status < 400 \<or> 600 \<le> status"
    and "map_of kvs (u ''organic_results'') = Some (JArr results)"
  shows "(fst (get_links_from_serpapi w query api_key max_results) = []
          \<or> fst (get_links_from_serpapi w query api_key max_results)
              = truncate_then_filter results max_results)
       \<and> ((\<forall>r \<in> set (slice_to max_results results). \<exists>f. r = JObj f) \<longrightarrow>
            fst (get_links_from_serpapi w query api_key max_results)
              = truncate_then_filter results max_results)
       \<and> subseq (fst (get_links_from_serpapi w query api_key max_results))
            (map link_field results)
       \<and> (0 \<le> max_results \<longrightarrow>
            length (fst (get_links_from_serpapi w query api_key max_results)) \<le> nat max_results)"
proof -
  let ?ls = "fst (get_links_from_serpapi w query api_key max_results)"
  have body: "serpapi_try (requests_get w query api_key max_results) max_results
                = links_of (slice_to max_results results)"
    using assms by (auto simp: serpapi_try_def raise_for_status_def resp_json_def)
  have a: "?ls = [] \<or> ?ls = truncate_then_filter results max_results"
    unfolding get_links_from_serpapi_def body
    by (auto simp: truncate_then_filter_def split: sum.splits dest: links_of_Inr)
  have b: "?ls = truncate_then_filter results max_results"
    if "\<forall>r \<in> set (slice_to max_results results). \<exists>f. r = JObj f"
    unfolding get_links_from_serpapi_def body
    using links_of_objects [OF that] by (simp add: truncate_then_filter_def)
  have c: "subseq ?ls (map link_field results)"
    using a subseq_truncate_then_filter [of results max_results] by auto
  have d: "length ?ls \<le> nat max_results" if "0 \<le> max_results"
    using a length_truncate_then_filter [OF that, of results] by auto
  from a b c d show ?thesis by blast
qed

theorem get_links_truncates_then_filters_witness:
  "fst (get_links_from_serpapi ranked (JStr (u ''tea'')) (u ''serp-key'') 5)
     = [JStr (u ''http://a'')]
   \<and> length (fst (get_links_from_serpapi ranked (JStr (u ''tea'')) (u ''serp-key'') 5)) \<le> 5"
proof -
  let ?kvs = "[(u ''organic_results'', JArr unlinked_first)]"
  have r: "requests_get ranked (JStr (u ''tea'')) (u ''serp-key'') 5
             = HttpResponse 200 (Some (JObj ?kvs))"
    by (simp add: ranked_def constant_world_def)
  have s: "(200::int) < 400 \<or> (600::int) \<le> 200" by simp
  have m: "map_of ?kvs (u ''organic_results'') = Some (JArr unlinked_first)" by simp
  have objs: "\<forall>r \<in> set (slice_to 5 unlinked_first). \<exists>f. r = JObj f"
    by (simp add: slice_to_def unlinked_first_def)
  have v: "truncate_then_filter unlinked_first 5 = [JStr (u ''http://a'')]"
    by code_simp
  from get_links_truncates_then_filters [OF r s m] objs v show ?thesis by simp
qed

text \<open>
  Claim C3 as it is stated fails: with \<open>max_results = 1\<close> and two results of which only
  the second has a link, dropping the entries without a link before cutting gives that
  link, and the code gives nothing.
\<close>

theorem link_after_the_cut_is_lost:
  "fst (get_links_from_serpapi ranked (JStr (u ''tea'')) (u ''serp-key'') 1) = []
   \<and> filter_then_truncate unlinked_first 1 = [JStr (u ''http://a'')]"
  by code_simp

lemma search_failure_no_links:
  assumes "search_failure resp n"
  shows "serpapi_try resp n = Inr [] \<or> (\<exists>e. serpapi_try resp n = Inl e)"
proof (cases resp)
  case (RequestFailed e)
  then show ?thesis by (simp add: serpapi_try_def)
next
  case (HttpResponse status body)
  show ?thesis
  proof (cases "400 \<le> status \<and> status < 600")
    case True
    with HttpResponse show ?thesis by (simp add: serpapi_try_def raise_for_status_def)
  next
    case ok: False
    show ?thesis
    proof (cases body)
      case None
      with HttpResponse ok show ?thesis
        by (auto simp: serpapi_try_def raise_for_status_def resp_json_def)
    next
      case (Some data)
      show ?thesis
      proof (cases data)
        case (JObj kvs)
        show ?thesis
        proof (cases "map_of kvs (u ''organic_results'')")
          case None
          with HttpResponse ok Some JObj show ?thesis
            by (auto simp: serpapi_try_def raise_for_status_def resp_json_def slice_to_def)
        next
          case (Some results)
          have body: "serpapi_try resp n
                        = (case slice_items results n of Inl e \<Rightarrow> Inl e | Inr rs \<Rightarrow> links_of rs)"
            using HttpResponse ok \<open>body = Some data\<close> JObj Some
            by (auto simp: serpapi_try_def raise_for_status_def resp_json_def)
          show ?thesis
          proof (cases results)
            case (JArr rs)
            from assms HttpResponse ok \<open>body = Some data\<close> JObj Some JArr
            have "rs = [] \<or> list_ex (\<lambda>r. case r of JObj f \<Rightarrow> False | _ \<Rightarrow> True) (slice_to n rs)"
              by auto
            then show ?thesis
            proof
              assume "rs = []"
              with body JArr show ?thesis by (simp add: slice_to_def)
            next
              assume "list_ex (\<lambda>r. case r of JObj f \<Rightarrow> False | _ \<Rightarrow> True) (slice_to n rs)"
              from links_of_not_object [OF this] body JArr show ?thesis by auto
            qed
          next
            case (JStr s)
            with body show ?thesis
              by (cases "links_of (map (\<lambda>c. JStr [c]) (slice_to n s))") (auto dest: links_of_chars)
          qed (use body in auto)
        qed
      qed (use HttpResponse ok Some in
            \<open>auto simp: serpapi_try_def raise_for_status_def resp_json_def\<close>)
    qed
  qed
qed

section \<open>The Pipeline Orchestrator\<close>

text \<open>
  Claim C5, as the code has it. When the search request fails (it raises, the status is
  400..599, the body is not JSON or not of the expected shape) or the organic results are
  empty, \<open>get_links_from_serpapi\<close> returns the empty list, and the handler answers with
  the fixed no-search-results message after the search request alone: the browser is not
  started and the language model is not called.
\<close>

theorem search_failure_short_circuit:
  assumes "get data (u ''question'') (JStr []) = Inr question" and "truthy question"
    and "search_failure (requests_get w question (SERPAPI_KEY w) 5) 5"
  shows "get_links_from_serpapi w question (SERPAPI_KEY w) 5
           = ([], [SearchGet question (SERPAPI_KEY w) 5])
       \<and> handle_query w data
           = (Inr (Response 200 no_search_results), [SearchGet question (SERPAPI_KEY w) 5])"
proof -
  from search_failure_no_links [OF assms(3)]
  have links: "get_links_from_serpapi w question (SERPAPI_KEY w) 5
           = ([], [SearchGet question (SERPAPI_KEY w) 5])"
    by (auto simp: get_links_from_serpapi_def)
  with assms(1,2) show ?thesis by (simp add: handle_query_def)
qed

theorem search_failure_short_circuit_witness:
  "handle_query offline (question_body ''tea'')
     = (Inr (Response 200 no_search_results), [SearchGet (JStr (u ''tea'')) (u ''serp-key'') 5])"
proof -
  have g: "get (question_body ''tea'') (u ''question'') (JStr []) = Inr (JStr (u ''tea''))"
    by (simp add: question_body_def)
  have t: "truthy (JStr (u ''tea''))" by (simp add: u_def)
  have k: "SERPAPI_KEY offline = u ''serp-key''" by (simp add: offline_def constant_world_def)
  have f: "search_failure (requests_get offline (JStr (u ''tea'')) (SERPAPI_KEY offline) 5) 5"
    by (simp add: offline_def constant_world_def)
  from search_failure_short_circuit [OF g t f] k show ?thesis by simp
qed

text \<open>
  Claim C5 as it is stated fails on a status outside 200..299 that is not an error status:
  \<open>raise_for_status\<close> lets 304 pass, the links of the body are returned, and the handler
  goes on to the browser.
\<close>

theorem status_304_is_not_a_failure:
  "handle_query not_modified (question_body ''tea'')
     = (Inr (Response 200 no_content_extracted),
        [SearchGet (JStr (u ''tea'')) (u ''serp-key'') 5, ChromeStart, SetPageLoadTimeout 7,
         PageLoad (JStr (u ''http://a'')), ChromeQuit])"
  by code_simp

text \<open>
  Claim C10. When the body is an object in which \<open>question\<close> is absent or bound to a value
  that is false in a condition, the handler returns status 400 with the fixed
  missing-question message and makes no outbound call. The empty string, \<open>null\<close>, \<open>false\<close>,
  \<open>0\<close> and the empty array are such values, and a body without the key gets the same
  response as one with the empty string.
\<close>

theorem missing_question_rejected:
  assumes "map_of kvs (u ''question'') = None
           \<or> (\<exists>v. map_of kvs (u ''question'') = Some v \<and> \<not> truthy v)"
  shows "handle_query w (JObj kvs) = (Inr (Response 400 missing_question), [])
       \<and> \<not> truthy (JStr []) \<and> \<not> truthy JNull \<and> \<not> truthy (JBool False) \<and> \<not> truthy (JInt 0)
       \<and> \<not> truthy (JArr [])
       \<and> handle_query w (JObj []) = handle_query w (JObj [(u ''question'', JStr [])])"
  using assms by (auto simp: handle_query_def)

theorem missing_question_rejected_witness:
  "handle_query offline (JObj []) = (Inr (Response 400 missing_question), [])
   \<and> handle_query offline (JObj [(u ''question'', JNull)])
       = (Inr (Response 400 missing_question), [])"
proof -
  have a: "map_of ([] :: (str \<times> json) list) (u ''question'') = None
           \<or> (\<exists>v. map_of ([] :: (str \<times> json) list) (u ''question'') = Some v \<and> \<not> truthy v)"
    by simp
  have b: "map_of [(u ''question'', JNull)] (u ''question'') = None
           \<or> (\<exists>v. map_of [(u ''question'', JNull)] (u ''question'') = Some v \<and> \<not> truthy v)"
    by simp
  from missing_question_rejected [OF a, of offline] missing_question_rejected [OF b, of offline]
  show ?thesis by simp
qed

text \<open>
  Claim C1, as the code has it. For a question that is a string, the handler returns the
  client error without any outbound call exactly when the string is empty; every other
  string, one of white space only included, passes the check, and the first thing the
  handler does is the search request with that string.
\<close>

theorem empty_question_rejected:
  assumes "get data (u ''question'') (JStr []) = Inr (JStr q)"
  shows "(q = [] \<longrightarrow> handle_query w data = (Inr (Response 400 missing_question), []))
       \<and> (q \<noteq> [] \<longrightarrow>
            (\<exists>r calls. handle_query w data = (r, SearchGet (JStr q) (SERPAPI_KEY w) 5 # calls)))"
  using assms
  by (auto simp: handle_query_def get_links_from_serpapi_def split: prod.splits sum.splits)

theorem empty_question_rejected_witness:
  "handle_query offline (question_body []) = (Inr (Response 400 missing_question), [])"
proof -
  have g: "get (question_body []) (u ''question'') (JStr []) = Inr (JStr [])"
    by (simp add: question_body_def u_def)
  from empty_question_rejected [OF g, of offline] show ?thesis by simp
qed

text \<open>
  Claim C1 as it is stated fails: a question of one space is blank after trimming, and
  the handler answers it with status 200 after a search request.
\<close>

theorem blank_question_starts_pipeline:
  "strip (u '' '') = []
   \<and> handle_query offline (question_body '' '')
       = (Inr (Response 200 no_search_results), [SearchGet (JStr (u '' '')) (u ''serp-key'') 5])"
  by code_simp

section \<open>The browser session\<close>

lemma scrape_loop_calls:
  "scrape_loop w t links extracted = (r, calls) \<Longrightarrow> \<forall>c \<in> set calls. \<exists>url. c = PageLoad url"
proof (induction links arbitrary: extracted r calls)
  case Nil
  then show ?case by simp
next
  case (Cons url links)
  then show ?case
    by (fastforce split: nav_outcome.splits if_splits prod.splits)
qed

lemma scrape_loop_Inl:
  "scrape_loop w t links extracted = (Inl e, calls) \<Longrightarrow> \<not> isinstance_WebDriverException e"
proof (induction links arbitrary: extracted calls)
  case Nil
  then show ?case by simp
next
  case (Cons url links)
  then show ?case
    by (fastforce split: nav_outcome.splits if_splits prod.splits)
qed

lemma scrape_loop_all_survive:
  assumes "\<forall>url \<in> set links. load_survives w t url"
  shows "\<exists>s. scrape_loop w t links extracted = (Inr s, map PageLoad links)"
  using assms
proof (induction links arbitrary: extracted)
  case Nil
  then show ?case by simp
next
  case (Cons url links)
  show ?case
  proof (cases "driver_get w t url")
    case (Loaded pg)
    from Cons.IH [of "scrape_page pg extracted"] Cons.prems
    obtain s where "scrape_loop w t links (scrape_page pg extracted) = (Inr s, map PageLoad links)"
      by auto
    with Loaded show ?thesis by simp
  next
    case (NavRaises e)
    with Cons.prems have "isinstance_WebDriverException e" by (simp add: load_survives_def)
    moreover from Cons.IH [of extracted] Cons.prems
    obtain s where "scrape_loop w t links extracted = (Inr s, map PageLoad links)"
      by auto
    ultimately show ?thesis using NavRaises by simp
  qed
qed

lemma scrape_loop_first_uncaught:
  assumes "\<forall>url \<in> set before. load_survives w t url"
    and "driver_get w t url = NavRaises e" and "\<not> isinstance_WebDriverException e"
  shows "scrape_loop w t (before @ url # rest) extracted
           = (Inl e, map PageLoad (before @ [url]))"
  using assms(1)
proof (induction before arbitrary: extracted)
  case Nil
  with assms(2,3) show ?case by simp
next
  case (Cons b before)
  then have b: "load_survives w t b" and rest: "\<forall>url \<in> set before. load_survives w t url"
    by simp_all
  show ?case
  proof (cases "driver_get w t b")
    case (Loaded pg)
    with Cons.IH [OF rest, of "scrape_page pg extracted"] show ?thesis by simp
  next
    case (NavRaises e')
    with b have "isinstance_WebDriverException e'" by (simp add: load_survives_def)
    with NavRaises Cons.IH [OF rest, of extracted] show ?thesis by simp
  qed
qed

lemma count_list_none: "x \<notin> set xs \<Longrightarrow> count_list xs x = 0"
  by (induction xs) auto

lemma scrape_links_no_post:
  "scrape_links w links t = (r, calls) \<Longrightarrow> GeminiPost k p \<notin> set calls"
  by (auto simp: scrape_links_def split: prod.splits sum.splits option.splits
      dest!: scrape_loop_calls)

text \<open>
  Claim C4, as the code has it. These are all the exit paths of \<open>scrape_links\<close>:
  \<^item> starting the browser raises: the exception leaves the function; there is no session,
    and none is quit;
  \<^item> setting the page-load timeout raises: the exception leaves the function, and the
    browser that was started is not quit;
  \<^item> the first page load whose exception is not a \<open>TimeoutException\<close> or
    \<open>WebDriverException\<close>: that exception leaves the function right after this page load,
    and the browser is not quit;
  \<^item> every page load succeeds or raises one of those two, whatever the strategies do:
    every link is visited and the browser is quit, once and as the last call; the
    function returns the text unless \<open>driver.quit()\<close> itself raises.
  So whenever the function returns, the browser has been quit exactly once, as the last
  call; and whenever an exception leaves it, the browser has not been quit, unless the
  exception is that of the one \<open>driver.quit()\<close>.
\<close>

theorem scrape_links_quit:
  "(\<forall>e. webdriver_Chrome w = Some e \<longrightarrow>
       scrape_links w links t = (Inl e, [ChromeStart]))
   \<and> (\<forall>e. webdriver_Chrome w = None \<and> set_page_load_timeout w t = Some e \<longrightarrow>
       scrape_links w links t = (Inl e, [ChromeStart, SetPageLoadTimeout t]))
   \<and> (\<forall>before url rest e.
         webdriver_Chrome w = None \<and> set_page_load_timeout w t = None
         \<and> links = before @ url # rest \<and> (\<forall>b \<in> set before. load_survives w t b)
         \<and> driver_get w t url = NavRaises e \<and> \<not> isinstance_WebDriverException e \<longrightarrow>
       scrape_links w links t
         = (Inl e, ChromeStart # SetPageLoadTimeout t # map PageLoad (before @ [url])))
   \<and> (webdriver_Chrome w = None \<and> set_page_load_timeout w t = None
         \<and> (\<forall>url \<in> set links. load_survives w t url) \<longrightarrow>
       (\<exists>extracted. scrape_links w links t
          = (case driver_quit w of None \<Rightarrow> Inr extracted | Some e \<Rightarrow> Inl e,
             ChromeStart # SetPageLoadTimeout t # map PageLoad links @ [ChromeQuit])))
   \<and> (\<forall>extracted calls. scrape_links w links t = (Inr extracted, calls) \<longrightarrow>
       count_list calls ChromeQuit = 1 \<and> last calls = ChromeQuit)
   \<and> (\<forall>e calls. scrape_links w links t = (Inl e, calls) \<longrightarrow>
       ChromeQuit \<notin> set calls
       \<or> (driver_quit w = Some e \<and> count_list calls ChromeQuit = 1 \<and> last calls = ChromeQuit))"
proof (intro conjI allI impI)
  fix e
  assume "webdriver_Chrome w = Some e"
  then show "scrape_links w links t = (Inl e, [ChromeStart])"
    by (simp add: scrape_links_def)
next
  fix e
  assume "webdriver_Chrome w = None \<and> set_page_load_timeout w t = Some e"
  then show "scrape_links w links t = (Inl e, [ChromeStart, SetPageLoadTimeout t])"
    by (simp add: scrape_links_def)
next
  fix before url rest e
  assume a: "webdriver_Chrome w = None \<and> set_page_load_timeout w t = None
         \<and> links = before @ url # rest \<and> (\<forall>b \<in> set before. load_survives w t b)
         \<and> driver_get w t url = NavRaises e \<and> \<not> isinstance_WebDriverException e"
  then have "scrape_loop w t links [] = (Inl e, map PageLoad (before @ [url]))"
    using scrape_loop_first_uncaught [of before w t url e rest "[]"] by simp
  with a show "scrape_links w links t
         = (Inl e, ChromeStart # SetPageLoadTimeout t # map PageLoad (before @ [url]))"
    by (simp add: scrape_links_def)
next
  assume a: "webdriver_Chrome w = None \<and> set_page_load_timeout w t = None
         \<and> (\<forall>url \<in> set links. load_survives w t url)"
  then obtain s where "scrape_loop w t links [] = (Inr s, map PageLoad links)"
    using scrape_loop_all_survive [of links w t "[]"] by auto
  with a show "\<exists>extracted. scrape_links w links t
          = (case driver_quit w of None \<Rightarrow> Inr extracted | Some e \<Rightarrow> Inl e,
             ChromeStart # SetPageLoadTimeout t # map PageLoad links @ [ChromeQuit])"
    by (auto simp: scrape_links_def split: option.splits)
next
  fix extracted calls
  assume r: "scrape_links w links t = (Inr extracted, calls)"
  then obtain loads where l: "scrape_loop w t links [] = (Inr extracted, loads)"
    and c: "calls = ChromeStart # SetPageLoadTimeout t # loads @ [ChromeQuit]"
    by (auto simp: scrape_links_def split: prod.splits sum.splits option.splits)
  from scrape_loop_calls [OF l] have "ChromeQuit \<notin> set loads" by auto
  then show "count_list calls ChromeQuit = 1"
    by (simp add: c count_list_none)
  show "last calls = ChromeQuit" by (simp add: c)
next
  fix e calls
  assume r: "scrape_links w links t = (Inl e, calls)"
  show "ChromeQuit \<notin> set calls
       \<or> (driver_quit w = Some e \<and> count_list calls ChromeQuit = 1 \<and> last calls = ChromeQuit)"
  proof (cases "ChromeQuit \<in> set calls")
    case False
    then show ?thesis by simp
  next
    case True
    obtain r' loads where l: "scrape_loop w t links [] = (r', loads)"
      by (cases "scrape_loop w t links []") auto
    from scrape_loop_calls [OF l] have n: "ChromeQuit \<notin> set loads" by auto
    from r True l n have "driver_quit w = Some e"
      and c: "calls = ChromeStart # SetPageLoadTimeout t # loads @ [ChromeQuit]"
      by (auto simp: scrape_links_def split: sum.splits option.splits)
    moreover from n have "count_list calls ChromeQuit = 1"
      by (simp add: c count_list_none)
    moreover have "last calls = ChromeQuit" by (simp add: c)
    ultimately show ?thesis by simp
  qed
qed

theorem scrape_links_quit_witness:
  "scrape_links no_driver [JStr (u ''http://a'')] 7 = (Inl WebDriverException, [ChromeStart])
   \<and> scrape_links timeout_rejected [JStr (u ''http://a'')] 7
       = (Inl WebDriverException, [ChromeStart, SetPageLoadTimeout 7])
   \<and> scrape_links lost_driver [JStr (u ''http://a'')] 7
       = (Inl MaxRetryError,
          [ChromeStart, SetPageLoadTimeout 7, PageLoad (JStr (u ''http://a''))])
   \<and> scrape_links offline [JStr (u ''http://a'')] 7
       = (Inr [], [ChromeStart, SetPageLoadTimeout 7, PageLoad (JStr (u ''http://a'')),
                   ChromeQuit])
   \<and> scrape_links quit_fails [JStr (u ''http://a'')] 7
       = (Inl WebDriverException,
          [ChromeStart, SetPageLoadTimeout 7, PageLoad (JStr (u ''http://a'')), ChromeQuit])
   \<and> count_list [ChromeStart, SetPageLoadTimeout 7, PageLoad (JStr (u ''http://a'')), ChromeQuit]
        ChromeQuit = 1"
proof -
  let ?links = "[JStr (u ''http://a'')]"
  have a: "webdriver_Chrome no_driver = Some WebDriverException"
    by (simp add: no_driver_def)
  have b: "webdriver_Chrome timeout_rejected = None
           \<and> set_page_load_timeout timeout_rejected 7 = Some WebDriverException"
    by (simp add: timeout_rejected_def offline_def constant_world_def)
  have c: "webdriver_Chrome lost_driver = None \<and> set_page_load_timeout lost_driver 7 = None
           \<and> ?links = [] @ JStr (u ''http://a'') # []
           \<and> (\<forall>b \<in> set []. load_survives lost_driver 7 b)
           \<and> driver_get lost_driver 7 (JStr (u ''http://a'')) = NavRaises MaxRetryError
           \<and> \<not> isinstance_WebDriverException MaxRetryError"
    by (simp add: lost_driver_def constant_world_def)
  have d: "webdriver_Chrome offline = None \<and> set_page_load_timeout offline 7 = None
           \<and> (\<forall>url \<in> set ?links. load_survives offline 7 url)"
    by (simp add: offline_def constant_world_def load_survives_def)
  have d': "webdriver_Chrome quit_fails = None \<and> set_page_load_timeout quit_fails 7 = None
           \<and> (\<forall>url \<in> set ?links. load_survives quit_fails 7 url)"
    by (simp add: quit_fails_def offline_def constant_world_def load_survives_def)
  have q: "driver_quit offline = None" "driver_quit quit_fails = Some WebDriverException"
    by (simp_all add: quit_fails_def offline_def constant_world_def)
  note t1 = scrape_links_quit [of no_driver ?links 7]
  note t2 = scrape_links_quit [of timeout_rejected ?links 7]
  note t3 = scrape_links_quit [of lost_driver ?links 7]
  note t4 = scrape_links_quit [of offline ?links 7]
  note t5 = scrape_links_quit [of quit_fails ?links 7]
  from t1 a have 1: "scrape_links no_driver ?links 7 = (Inl WebDriverException, [ChromeStart])"
    by blast
  from t2 b have 2: "scrape_links timeout_rejected ?links 7
       = (Inl WebDriverException, [ChromeStart, SetPageLoadTimeout 7])"
    by blast
  from t3 c have "scrape_links lost_driver ?links 7
       = (Inl MaxRetryError, ChromeStart # SetPageLoadTimeout 7
            # map PageLoad ([] @ [JStr (u ''http://a'')]))"
    by blast
  then have 3: "scrape_links lost_driver ?links 7
       = (Inl MaxRetryError,
          [ChromeStart, SetPageLoadTimeout 7, PageLoad (JStr (u ''http://a''))])"
    by simp
  from t4 d q(1) obtain extracted where 4: "scrape_links offline ?links 7
       = (Inr extracted, [ChromeStart, SetPageLoadTimeout 7, PageLoad (JStr (u ''http://a'')),
                   ChromeQuit])"
    by auto
  moreover have "fst (scrape_links offline ?links 7) = Inr []"
    by (simp add: scrape_links_def offline_def constant_world_def)
  ultimately have 4: "scrape_links offline ?links 7
       = (Inr [], [ChromeStart, SetPageLoadTimeout 7, PageLoad (JStr (u ''http://a'')),
                   ChromeQuit])"
    by simp
  from t5 d' q(2) have 5: "scrape_links quit_fails ?links 7
       = (Inl WebDriverException,
          [ChromeStart, SetPageLoadTimeout 7, PageLoad (JStr (u ''http://a'')), ChromeQuit])"
    by auto
  from t4 4 have 6: "count_list [ChromeStart, SetPageLoadTimeout 7,
        PageLoad (JStr (u ''http://a'')), ChromeQuit] ChromeQuit = 1"
    by blast
  from 1 2 3 4 5 6 show ?thesis by simp
qed

text \<open>
  Claim C4 as it is stated fails: when the connection to the browser driver is lost during
  a page load, the exception leaves \<open>scrape_links\<close> and the browser is never quit.
\<close>

theorem lost_driver_leaks_session:
  "scrape_links lost_driver [JStr (u ''http://a'')] 7
     = (Inl MaxRetryError, [ChromeStart, SetPageLoadTimeout 7, PageLoad (JStr (u ''http://a''))])"
  by code_simp

text \<open>
  Claim C6. When the question passes the check, the search gives links, and the text
  that the extractor returns is blank, the handler answers with the fixed
  no-content-extracted message, and no call to the language model is among the calls made.
\<close>

theorem blank_extraction_short_circuit:
  assumes "get data (u ''question'') (JStr []) = Inr question" and "truthy question"
    and "get_links_from_serpapi w question (SERPAPI_KEY w) 5 = (links, calls1)"
    and "links \<noteq> []"
    and "scrape_links w links 7 = (Inr scraped, calls2)" and "strip scraped = []"
  shows "handle_query w data = (Inr (Response 200 no_content_extracted), calls1 @ calls2)
       \<and> (\<forall>k p. GeminiPost k p \<notin> set (calls1 @ calls2))"
proof -
  have "handle_query w data = (Inr (Response 200 no_content_extracted), calls1 @ calls2)"
    using assms by (simp add: handle_query_def)
  moreover have "GeminiPost k p \<notin> set calls1" for k p
    using assms(3) by (auto simp: get_links_from_serpapi_def)
  moreover have "GeminiPost k p \<notin> set calls2" for k p
    using scrape_links_no_post [OF assms(5)] .
  ultimately show ?thesis by simp
qed

theorem blank_extraction_short_circuit_witness:
  "handle_query unreachable_pages (question_body ''tea'')
     = (Inr (Response 200 no_content_extracted),
        [SearchGet (JStr (u ''tea'')) (u ''serp-key'') 5]
        @ [ChromeStart, SetPageLoadTimeout 7, PageLoad (JStr (u ''http://a'')), ChromeQuit])"
proof -
  have g: "get (question_body ''tea'') (u ''question'') (JStr []) = Inr (JStr (u ''tea''))"
    by (simp add: question_body_def)
  have t: "truthy (JStr (u ''tea''))" by (simp add: u_def)
  have l: "get_links_from_serpapi unreachable_pages (JStr (u ''tea'')) (SERPAPI_KEY unreachable_pages) 5
             = ([JStr (u ''http://a'')], [SearchGet (JStr (u ''tea'')) (u ''serp-key'') 5])"
    by code_simp
  have n: "[JStr (u ''http://a'')] \<noteq> []" by simp
  have s: "scrape_links unreachable_pages [JStr (u ''http://a'')] 7
             = (Inr [], [ChromeStart, SetPageLoadTimeout 7, PageLoad (JStr (u ''http://a'')), ChromeQuit])"
    by code_simp
  have b: "strip [] = []" by (simp add: strip_def)
  from blank_extraction_short_circuit [OF g t l n s b] show ?thesis by simp
qed

section \<open>The extraction strategies\<close>

lemma for_each_append:
  assumes "\<And>x extracted. x \<in> set xs \<Longrightarrow> body x extracted = (None, extracted @ f x)"
  shows "for_each body xs extracted = (None, extracted @ concat (map f xs))"
  using assms by (induction xs arbitrary: extracted) simp_all

lemma cell_texts_fresh:
  "\<forall>cell \<in> set cells. \<not> el_stale cell \<Longrightarrow>
   cell_texts cells = Inr (map (\<lambda>cell. strip (el_text cell)) cells)"
  by (induction cells) (simp_all add: text_strip_def text_of_def)

lemma row_body_fresh:
  assumes "\<not> el_stale row" and "\<forall>cell \<in> set (header_then_data_cells row). \<not> el_stale cell"
  shows "row_body row extracted = (None, extracted @ row_line row)"
  using assms cell_texts_fresh [OF assms(2)]
  by (simp add: row_body_def find_elements_def header_then_data_cells_def row_texts_def
      row_line_def)

lemma concat_row_lines:
  "concat (map row_line rows)
     = concat (map (\<lambda>texts. join tab texts @ nl) (filter any_str (map row_texts rows)))"
  by (induction rows) (simp_all add: row_line_def)

lemma table_body_fresh:
  assumes "\<not> el_stale table"
    and "\<forall>row \<in> set (rows_of table). \<not> el_stale row \<and>
           (\<forall>cell \<in> set (header_then_data_cells row). \<not> el_stale cell)"
  shows "table_body table extracted = (None, extracted @ table_lines table)"
proof -
  have "for_each row_body (rows_of table) extracted
          = (None, extracted @ concat (map row_line (rows_of table)))"
    by (rule for_each_append) (use assms(2) in \<open>simp add: row_body_fresh\<close>)
  then show ?thesis
    using assms(1)
    by (simp add: table_body_def find_elements_def rows_of_def [symmetric] table_lines_def
        concat_row_lines)
qed

text \<open>
  Claim C7, as the code has it. On a page whose tables, rows and cells can be read, the
  table strategy appends, for every table element and every row of it whose trimmed
  cells are not all empty, one tab-separated line: the rows in document order, and in a
  row its header cells in document order followed by its data cells in document order.
  A table with a header row and a data row, each with a cell that is not empty, gives
  exactly two lines, the header row's first.
\<close>

theorem table_strategy_lines:
  assumes "\<forall>table \<in> set (driver_find_elements pg (TAG_NAME (u ''table''))).
             \<not> el_stale table \<and>
             (\<forall>row \<in> set (rows_of table). \<not> el_stale row \<and>
                (\<forall>cell \<in> set (header_then_data_cells row). \<not> el_stale cell))"
  shows "table_strategy pg extracted
           = (None, extracted
                @ concat (map table_lines (driver_find_elements pg (TAG_NAME (u ''table'')))))
       \<and> (\<forall>table header_row data_row.
            rows_of table = [header_row, data_row] \<and> any_str (row_texts header_row)
              \<and> any_str (row_texts data_row) \<longrightarrow>
            table_lines table
              = join tab (row_texts header_row) @ nl @ join tab (row_texts data_row) @ nl)"
proof
  show "table_strategy pg extracted
           = (None, extracted
                @ concat (map table_lines (driver_find_elements pg (TAG_NAME (u ''table'')))))"
    unfolding table_strategy_def
    by (rule for_each_append) (use assms in \<open>simp add: table_body_fresh\<close>)
  show "\<forall>table header_row data_row.
            rows_of table = [header_row, data_row] \<and> any_str (row_texts header_row)
              \<and> any_str (row_texts data_row) \<longrightarrow>
            table_lines table
              = join tab (row_texts header_row) @ nl @ join tab (row_texts data_row) @ nl"
    by (simp add: table_lines_def)
qed

theorem table_strategy_lines_witness:
  "table_strategy price_page []
     = (None, u ''Name'' @ tab @ u ''Price'' @ nl @ u ''Tea'' @ tab @ u ''5'' @ nl)
   \<and> rows_of price_table = [price_header, price_data]
   \<and> table_lines price_table = u ''Name'' @ tab @ u ''Price'' @ nl @ u ''Tea'' @ tab @ u ''5'' @ nl"
proof -
  have fresh: "\<forall>table \<in> set (driver_find_elements price_page (TAG_NAME (u ''table''))).
             \<not> el_stale table \<and>
             (\<forall>row \<in> set (rows_of table). \<not> el_stale row \<and>
                (\<forall>cell \<in> set (header_then_data_cells row). \<not> el_stale cell))"
    by code_simp
  have tables: "concat (map table_lines (driver_find_elements price_page (TAG_NAME (u ''table''))))
      = u ''Name'' @ tab @ u ''Price'' @ nl @ u ''Tea'' @ tab @ u ''5'' @ nl"
    by code_simp
  have rows: "rows_of price_table = [price_header, price_data]
      \<and> any_str (row_texts price_header) \<and> any_str (row_texts price_data)"
    by code_simp
  have two: "join tab (row_texts price_header) @ nl @ join tab (row_texts price_data) @ nl
      = u ''Name'' @ tab @ u ''Price'' @ nl @ u ''Tea'' @ tab @ u ''5'' @ nl"
    by code_simp
  note t = table_strategy_lines [OF fresh, of "[]"]
  from t tables have 1: "table_strategy price_page []
     = (None, u ''Name'' @ tab @ u ''Price'' @ nl @ u ''Tea'' @ tab @ u ''5'' @ nl)"
    by simp
  from t rows have "table_lines price_table
     = join tab (row_texts price_header) @ nl @ join tab (row_texts price_data) @ nl"
    by blast
  with two have 2: "table_lines price_table
     = u ''Name'' @ tab @ u ''Price'' @ nl @ u ''Tea'' @ tab @ u ''5'' @ nl"
    by simp
  from 1 2 rows show ?thesis by simp
qed

text \<open>
  Claim C7 as it is stated fails: in a row whose data cell \<open>a\<close> comes before its header
  cell \<open>b\<close>, the line has \<open>b\<close> first, which is not the document order of the cells.
\<close>

theorem header_cells_come_first:
  "table_strategy mixed_page [] = (None, u ''b'' @ tab @ u ''a'' @ nl)
   \<and> map (\<lambda>cell. strip (el_text cell)) (cells_in_document_order mixed_row) = [u ''a'', u ''b'']"
  by code_simp







text \<open>
  The condition on the page is needed: a stale card raises inside the strategy, which
  then appends nothing for the cards after it.
\<close>

lemma stale_card_stops_cafe_strategy:
  "listing_cards stale_card_page = [stale_card, name_only_card]
   \<and> cafe_strategy stale_card_page [] = (Some StaleElementReferenceException, [])"
  by code_simp

text \<open>
  Claim C2, evaluated. The first page has a heading, a paragraph that has gone stale and
  a table with the cell \<open>x\<close>; the second page has the paragraph \<open>Hello\<close>. The generic
  strategy raises at the stale paragraph, after it has appended the heading. The text
  returned keeps the heading and has the second page's paragraph, but not the line
  \<open>x\<close> that the table strategy gives on the first page: after the failure the remaining
  strategies were not applied to that page.
\<close>

theorem strategy_failure_skips_rest_of_page:
  "scrape_links stale_world [JStr (u ''http://a''), JStr (u ''http://b'')] 7
     = (Inr (u ''Title'' @ nl @ u ''Hello'' @ nl),
        [ChromeStart, SetPageLoadTimeout 7, PageLoad (JStr (u ''http://a'')), PageLoad (JStr (u ''http://b'')),
         ChromeQuit])
   \<and> generic_strategy stale_page [] = (Some StaleElementReferenceException, u ''Title'' @ nl)
   \<and> table_strategy stale_page (u ''Title'' @ nl) = (None, u ''Title'' @ nl @ u ''x'' @ nl)"
  by code_simp

section \<open>The Answer Synthesizer\<close>

lemma getitem_Inr: "getitem v k = Inr x \<longleftrightarrow> field v k = Some x"
  by (cases v) (auto split: option.splits)

lemma getitem_Inl: "(\<exists>e. getitem v k = Inl e) \<longleftrightarrow> field v k = None"
  by (cases v) (auto split: option.splits)

lemma getitem0_cases:
  "(case first_item v of
      Some x \<Rightarrow> getitem0 v = Inr x
    | None \<Rightarrow> (\<exists>e. getitem0 v = Inl e) \<or> (\<exists>c. getitem0 v = Inr (JStr [c])))"
  by (cases v rule: getitem0.cases) auto

lemma strip_method_cases:
  "(\<exists>s. string_value v = Some s \<and> strip_method v = Inr (strip s)) \<or>
   (string_value v = None \<and> (\<exists>e. strip_method v = Inl e))"
  by (cases v) auto

text \<open>
  The chain of subscripts succeeds on the well-formed envelope, with its text trimmed,
  and raises on everything else.
\<close>

lemma candidate_text_envelope:
  "(case envelope_text data of
      Some t \<Rightarrow> candidate_text data = Inr (strip t)
    | None \<Rightarrow> \<exists>e. candidate_text data = Inl e)"
proof (cases "field data (u ''candidates'')")
  case None
  then show ?thesis using getitem_Inl [of data "u ''candidates''"]
    by (auto simp: envelope_text_def candidate_text_def)
next
  case c1: (Some candidates)
  then have g1: "getitem data (u ''candidates'') = Inr candidates" by (simp add: getitem_Inr)
  show ?thesis
  proof (cases "first_item candidates")
    case None
    with getitem0_cases [of candidates] c1 g1 show ?thesis
      by (auto simp: envelope_text_def candidate_text_def)
  next
    case c2: (Some candidate)
    with getitem0_cases [of candidates] have g2: "getitem0 candidates = Inr candidate" by auto
    show ?thesis
    proof (cases "field candidate (u ''content'')")
      case None
      with getitem_Inl [of candidate "u ''content''"] c1 c2 g1 g2 show ?thesis
        by (auto simp: envelope_text_def candidate_text_def)
    next
      case c3: (Some content)
      then have g3: "getitem candidate (u ''content'') = Inr content"
        by (simp add: getitem_Inr)
      show ?thesis
      proof (cases "field content (u ''parts'')")
        case None
        with getitem_Inl [of content "u ''parts''"] c1 c2 c3 g1 g2 g3 show ?thesis
          by (auto simp: envelope_text_def candidate_text_def)
      next
        case c4: (Some parts)
        then have g4: "getitem content (u ''parts'') = Inr parts" by (simp add: getitem_Inr)
        show ?thesis
        proof (cases "first_item parts")
          case None
          with getitem0_cases [of parts] c1 c2 c3 c4 g1 g2 g3 g4 show ?thesis
            by (auto simp: envelope_text_def candidate_text_def)
        next
          case c5: (Some part)
          with getitem0_cases [of parts] have g5: "getitem0 parts = Inr part" by auto
          show ?thesis
          proof (cases "field part (u ''text'')")
            case None
            with getitem_Inl [of part "u ''text''"] c1 c2 c3 c4 c5 g1 g2 g3 g4 g5
            show ?thesis
              by (auto simp: envelope_text_def candidate_text_def)
          next
            case c6: (Some t)
            then have g6: "getitem part (u ''text'') = Inr t" by (simp add: getitem_Inr)
            from strip_method_cases [of t] c1 c2 c3 c4 c5 c6 g1 g2 g3 g4 g5 g6 show ?thesis
              by (auto simp: envelope_text_def candidate_text_def)
          qed
        qed
      qed
    qed
  qed
qed

text \<open>
  Claim C9. \<open>query_gemini\<close> always returns a string, after one request to the language
  model. When the request raises, and when the status is 200 but the body is not JSON or
  not the well-formed envelope, the string is the cross mark with
  \<open>Gemini request failed:\<close> and the text of the exception; when the status is not 200, it
  is the cross mark with \<open>Gemini Error:\<close> and the status; and when the status is 200 and
  the body is the well-formed envelope, it is the generated text, trimmed.
\<close>

theorem query_gemini_returns:
  "(\<exists>a. query_gemini w question scraped api_key
           = (Inr a, [GeminiPost api_key (prompt w question scraped)]))
   \<and> (\<forall>e. requests_post w api_key (prompt w question scraped) = RequestFailed e \<longrightarrow>
         fst (query_gemini w question scraped api_key)
           = Inr (cross_mark @ u '' Gemini request failed: '' @ exn_str w e))
   \<and> (\<forall>status body. requests_post w api_key (prompt w question scraped) = HttpResponse status body
           \<and> status \<noteq> 200 \<longrightarrow>
         fst (query_gemini w question scraped api_key)
           = Inr (cross_mark @ u '' Gemini Error: '' @ str_of_int status))
   \<and> (\<forall>body. requests_post w api_key (prompt w question scraped) = HttpResponse 200 body
           \<and> response_text body = None \<longrightarrow>
         (\<exists>e. fst (query_gemini w question scraped api_key)
           = Inr (cross_mark @ u '' Gemini request failed: '' @ exn_str w e)))
   \<and> (\<forall>body t. requests_post w api_key (prompt w question scraped) = HttpResponse 200 body
           \<and> response_text body = Some t \<longrightarrow>
         fst (query_gemini w question scraped api_key) = Inr (strip t))"
proof (intro conjI allI impI)
  show "\<exists>a. query_gemini w question scraped api_key
           = (Inr a, [GeminiPost api_key (prompt w question scraped)])"
    by (simp add: query_gemini_def Let_def split: sum.splits)
next
  fix e
  assume "requests_post w api_key (prompt w question scraped) = RequestFailed e"
  then show "fst (query_gemini w question scraped api_key)
           = Inr (cross_mark @ u '' Gemini request failed: '' @ exn_str w e)"
    by (simp add: query_gemini_def gemini_try_def Let_def)
next
  fix status body
  assume "requests_post w api_key (prompt w question scraped) = HttpResponse status body
           \<and> status \<noteq> 200"
  then show "fst (query_gemini w question scraped api_key)
           = Inr (cross_mark @ u '' Gemini Error: '' @ str_of_int status)"
    by (simp add: query_gemini_def gemini_try_def Let_def)
next
  fix body
  assume a: "requests_post w api_key (prompt w question scraped) = HttpResponse 200 body
           \<and> response_text body = None"
  have "\<exists>e. (case resp_json body of Inl e \<Rightarrow> Inl e | Inr data \<Rightarrow> candidate_text data) = Inl e"
  proof (cases body)
    case None
    then show ?thesis by (simp add: resp_json_def)
  next
    case (Some data)
    with a candidate_text_envelope [of data] show ?thesis
      by (simp add: resp_json_def response_text_def)
  qed
  with a show "\<exists>e. fst (query_gemini w question scraped api_key)
           = Inr (cross_mark @ u '' Gemini request failed: '' @ exn_str w e)"
    by (auto simp: query_gemini_def gemini_try_def Let_def)
next
  fix body t
  assume a: "requests_post w api_key (prompt w question scraped) = HttpResponse 200 body
           \<and> response_text body = Some t"
  then obtain data where body: "body = Some data" and env: "envelope_text data = Some t"
    by (cases body) (auto simp: response_text_def)
  with candidate_text_envelope [of data] have "candidate_text data = Inr (strip t)" by simp
  with a body show "fst (query_gemini w question scraped api_key) = Inr (strip t)"
    by (simp add: query_gemini_def gemini_try_def Let_def resp_json_def)
qed

theorem query_gemini_returns_witness:
  "fst (query_gemini answering (JStr (u ''capital of France?'')) (u ''France'') (u ''gemini-key''))
     = Inr (u ''Paris.'')
   \<and> fst (query_gemini unavailable (JStr (u ''capital of France?'')) (u ''France'') (u ''gemini-key''))
     = Inr (cross_mark @ u '' Gemini Error: 503'')"
proof -
  let ?q = "JStr (u ''capital of France?'')"
  have post: "requests_post answering (u ''gemini-key'') (prompt answering ?q (u ''France''))
      = HttpResponse 200 (Some (reply '' Paris. ''))"
    by (simp add: answering_def constant_world_def)
  have shape: "response_text (Some (reply '' Paris. '')) = Some (u '' Paris. '')"
    by code_simp
  have busy: "requests_post unavailable (u ''gemini-key'') (prompt unavailable ?q (u ''France''))
      = HttpResponse 503 None \<and> (503::int) \<noteq> 200"
    by (simp add: unavailable_def constant_world_def)
  have s: "strip (u '' Paris. '') = u ''Paris.''" by code_simp
  have d: "cross_mark @ u '' Gemini Error: '' @ str_of_int 503
             = cross_mark @ u '' Gemini Error: 503''"
    by code_simp
  from query_gemini_returns [of answering ?q "u ''France''" "u ''gemini-key''"] post shape s
  have 1: "fst (query_gemini answering ?q (u ''France'') (u ''gemini-key'')) = Inr (u ''Paris.'')"
    by metis
  from query_gemini_returns [of unavailable ?q "u ''France''" "u ''gemini-key''"] busy d
  have 2: "fst (query_gemini unavailable ?q (u ''France'') (u ''gemini-key''))
             = Inr (cross_mark @ u '' Gemini Error: 503'')"
    by metis
  from 1 2 show ?thesis by simp
qed

end
